theory Spec2Isabelle
  imports Main "HOL-Library.Sublist"
begin

section \<open>JavaScript values read by the crime feed\<close>

text \<open>
  The front end works on whatever \<open>res.json()\<close> decodes, so the model keeps the values
  dynamically typed. \<open>JNum n\<close> stands for the integer-valued number \<open>n\<close>; identifiers and
  status codes are such numbers. Numbers with a fractional part are not represented, and
  the model is meant for the integers that a number holds exactly and prints in full
  (below \<open>2^53\<close> in magnitude).
  \<open>JObj\<close> lists the own properties of a decoded object, each key once. \<open>JUndefined\<close> is
  what reading a missing property gives; it never comes out of the decoder itself.
  A string is the list of its code units.
\<close>

datatype jsval =
    JUndefined
  | JNull
  | JBool bool
  | JNum int
  | JStr string
  | JArr "jsval list"
  | JObj "(string \<times> jsval) list"

text \<open>The result of arithmetic: an integer-valued number or \<open>NaN\<close>.\<close>

datatype jsnum = Num int | NaN

text \<open>
  What can be thrown or rejected. \<open>Error m\<close> is \<open>new Error(m)\<close> built by the program, with
  its message. \<open>TypeError\<close> and \<open>SyntaxError\<close> are raised by the engine (property access
  on \<open>null\<close> or \<open>undefined\<close>, calling something that is not a function, converting an
  object that has no usable \<open>toString\<close>, a failed network request, a malformed body) and
  their message text is the engine's. \<open>InvalidChild\<close> is the error React raises when it
  is handed a plain object to display (\<open>Objects are not valid as a React child\<close>).
\<close>

datatype jserr = Error string | TypeError | SyntaxError | InvalidChild

text \<open>
  The two host functions the card calls without defining them: the date formatter
  behind \<open>new Date(v).toLocaleString()\<close>, applied to a primitive and dependent on the
  locale and time zone of the browser, and the conversion of a string to a number that
  \<open>%\<close> applies to a string operand (here with an integer or \<open>NaN\<close> as its result, as for
  every number of the model).
\<close>

record host =
  toLocaleString :: "jsval \<Rightarrow> string"
  StringToNumber :: "string \<Rightarrow> jsnum"

subsection \<open>Conversions\<close>

text \<open>\<open>if (v)\<close> and \<open>v && e\<close> test this.\<close>

fun truthy :: "jsval \<Rightarrow> bool" where
  "truthy JUndefined = False"
| "truthy JNull = False"
| "truthy (JBool b) = b"
| "truthy (JNum n) = (n \<noteq> 0)"
| "truthy (JStr s) = (s \<noteq> [])"
| "truthy (JArr xs) = True"
| "truthy (JObj kvs) = True"

text \<open>Decimal numeral of a natural number, as a template literal prints a status code.\<close>

fun nat_digits :: "nat \<Rightarrow> string" where
  "nat_digits n =
     (if n < 10 then [''0123456789'' ! n]
      else nat_digits (n div 10) @ [''0123456789'' ! (n mod 10)])"

declare nat_digits.simps [simp del]

definition int_digits :: "int \<Rightarrow> string" where
  "int_digits n = (if n < 0 then CHR ''-'' # nat_digits (nat (- n)) else nat_digits (nat n))"

fun join :: "string list \<Rightarrow> string" where
  "join [] = []"
| "join [s] = s"
| "join (s # t # ss) = s @ CHR '','' # join (t # ss)"

text \<open>The first error of a list of results, or all the values.\<close>

fun collect :: "(jserr + 'a) list \<Rightarrow> jserr + 'a list" where
  "collect [] = Inr []"
| "collect (r # rs) =
     (case r of
        Inl e \<Rightarrow> Inl e
      | Inr x \<Rightarrow> (case collect rs of Inl e \<Rightarrow> Inl e | Inr xs \<Rightarrow> Inr (x # xs)))"

text \<open>
  \<open>String(v)\<close>, which \<open>new Error(v)\<close>, \<open>'' + v\<close> and the conversions below apply. An
  integer prints as its decimal numeral. A decoded object prints through the inherited
  \<open>toString\<close> as \<open>[object Object]\<close>, unless it has a property of its own called
  \<open>toString\<close>: that one hides the inherited method and cannot be called, and \<open>valueOf\<close>
  never yields a primitive for a decoded object, so the conversion throws a \<open>TypeError\<close>.
  An array joins the strings of its elements with commas, from left to right, \<open>null\<close>
  and \<open>undefined\<close> elements printing as nothing.
\<close>

fun to_string :: "jsval \<Rightarrow> jserr + string" where
  "to_string JUndefined = Inr ''undefined''"
| "to_string JNull = Inr ''null''"
| "to_string (JBool b) = Inr (if b then ''true'' else ''false'')"
| "to_string (JNum n) = Inr (int_digits n)"
| "to_string (JStr s) = Inr s"
| "to_string (JArr xs) =
     (case collect (map (\<lambda>x. if x = JUndefined \<or> x = JNull then Inr [] else to_string x) xs) of
        Inl e \<Rightarrow> Inl e
      | Inr ss \<Rightarrow> Inr (join ss))"
| "to_string (JObj kvs) =
     (if map_of kvs ''toString'' = None then Inr ''[object Object]'' else Inl TypeError)"

text \<open>The primitive an array or object is replaced by before it is used as a number or a date.\<close>

fun to_primitive :: "jsval \<Rightarrow> jserr + jsval" where
  "to_primitive (JArr xs) =
     (case to_string (JArr xs) of Inl e \<Rightarrow> Inl e | Inr s \<Rightarrow> Inr (JStr s))"
| "to_primitive (JObj kvs) =
     (case to_string (JObj kvs) of Inl e \<Rightarrow> Inl e | Inr s \<Rightarrow> Inr (JStr s))"
| "to_primitive v = Inr v"

text \<open>The numeric value an operand of \<open>%\<close> is converted to.\<close>

fun to_number :: "host \<Rightarrow> jsval \<Rightarrow> jserr + jsnum" where
  "to_number h JUndefined = Inr NaN"
| "to_number h JNull = Inr (Num 0)"
| "to_number h (JBool b) = Inr (Num (if b then 1 else 0))"
| "to_number h (JNum n) = Inr (Num n)"
| "to_number h (JStr s) = Inr (StringToNumber h s)"
| "to_number h (JArr xs) =
     (case to_string (JArr xs) of Inl e \<Rightarrow> Inl e | Inr s \<Rightarrow> Inr (StringToNumber h s))"
| "to_number h (JObj kvs) =
     (case to_string (JObj kvs) of Inl e \<Rightarrow> Inl e | Inr s \<Rightarrow> Inr (StringToNumber h s))"

text \<open>
  \<open>new Date(v).toLocaleString()\<close>: the constructor first replaces \<open>v\<close> by its primitive,
  which can throw; the host then turns the primitive into a date and prints it.
\<close>

definition date_text :: "host \<Rightarrow> jsval \<Rightarrow> jserr + string" where
  "date_text h v =
     (case to_primitive v of Inl e \<Rightarrow> Inl e | Inr p \<Rightarrow> Inr (toLocaleString h p))"

text \<open>
  \<open>a % b\<close> on integers: the remainder of the division that truncates towards zero, so
  its sign is the sign of \<open>a\<close>; \<open>NaN\<close> when \<open>b\<close> is zero.
\<close>

definition int_rem :: "int \<Rightarrow> int \<Rightarrow> jsnum" where
  "int_rem a b = (if b = 0 then NaN else Num (sgn a * (\<bar>a\<bar> mod \<bar>b\<bar>)))"

fun js_rem :: "jsnum \<Rightarrow> int \<Rightarrow> jsnum" where
  "js_rem NaN b = NaN"
| "js_rem (Num a) b = int_rem a b"

fun js_add :: "jsnum \<Rightarrow> int \<Rightarrow> jsnum" where
  "js_add NaN b = NaN"
| "js_add (Num a) b = Num (a + b)"

subsection \<open>Property access\<close>

text \<open>
  \<open>v.name\<close> for the data properties the program reads (\<open>error\<close>, \<open>data\<close>, \<open>OBJECTID\<close>,
  \<open>Incident_Type\<close>, \<open>Occurred_Datetime\<close>, \<open>Block_Address\<close>, \<open>Case_Number\<close>,
  \<open>DESCRIPTION\<close>): reading from \<open>null\<close> or \<open>undefined\<close> throws, an object gives its own
  property or \<open>undefined\<close>, and arrays and primitives have no property of these names.
\<close>

definition own :: "(string \<times> jsval) list \<Rightarrow> string \<Rightarrow> jsval" where
  "own kvs k = (case map_of kvs k of None \<Rightarrow> JUndefined | Some v \<Rightarrow> v)"

fun get_prop :: "string \<Rightarrow> jsval \<Rightarrow> jserr + jsval" where
  "get_prop k JUndefined = Inl TypeError"
| "get_prop k JNull = Inl TypeError"
| "get_prop k (JObj kvs) = Inr (own kvs k)"
| "get_prop k v = Inr JUndefined"

text \<open>\<open>v.length\<close>: arrays and strings have one of their own.\<close>

fun js_length :: "jsval \<Rightarrow> jserr + jsval" where
  "js_length (JArr xs) = Inr (JNum (int (length xs)))"
| "js_length (JStr s) = Inr (JNum (int (length s)))"
| "js_length v = get_prop ''length'' v"

section \<open>The item view: \<open>CrimeCard\<close>\<close>

text \<open>
  The card is the markup of \<open>CrimeCard.js\<close> with its holes filled in; the record below
  holds the holes in the order they appear. \<open>crime.DESCRIPTION && <p>...</p>\<close> is either
  the paragraph or the falsy value itself, left as the child. The expressions are
  evaluated in the order of the markup, and the first one that throws ends the call:
  reading a property of \<open>null\<close> or \<open>undefined\<close>, \<open>%\<close> on an identifier that cannot be
  converted, \<open>new Date\<close> on a timestamp that cannot be converted.
\<close>

datatype description = Paragraph jsval | Skipped jsval

record card_view =
  score :: jsnum
  incident_type :: jsval
  occurred :: string
  block_address :: jsval
  case_number :: jsval
  description_slot :: description
  discuss :: jsnum

definition CrimeCard :: "host \<Rightarrow> jsval \<Rightarrow> jserr + card_view" where
  "CrimeCard h crime =
     (case get_prop ''OBJECTID'' crime of Inl e \<Rightarrow> Inl e | Inr oid \<Rightarrow>
     (case to_number h oid of Inl e \<Rightarrow> Inl e | Inr n \<Rightarrow>
     (case get_prop ''Incident_Type'' crime of Inl e \<Rightarrow> Inl e | Inr ty \<Rightarrow>
     (case get_prop ''Occurred_Datetime'' crime of Inl e \<Rightarrow> Inl e | Inr dt \<Rightarrow>
     (case date_text h dt of Inl e \<Rightarrow> Inl e | Inr when \<Rightarrow>
     (case get_prop ''Block_Address'' crime of Inl e \<Rightarrow> Inl e | Inr addr \<Rightarrow>
     (case get_prop ''Case_Number'' crime of Inl e \<Rightarrow> Inl e | Inr cn \<Rightarrow>
     (case get_prop ''DESCRIPTION'' crime of Inl e \<Rightarrow> Inl e | Inr d \<Rightarrow>
        Inr \<lparr> score = js_rem n 100,
              incident_type = ty,
              occurred = when,
              block_address = addr,
              case_number = cn,
              description_slot = (if truthy d then Paragraph d else Skipped d),
              discuss = js_add (js_rem n 5) 1 \<rparr>))))))))"

section \<open>The list renderer: \<open>App\<close>\<close>

text \<open>
  The element \<open><CrimeCard key={crime.OBJECTID} crime={crime} />\<close>. When the element is
  created React stores the key as a string, \<open>'' + key\<close>, unless the key is \<open>undefined\<close>,
  in which case the element has none; the conversion throws for a key that has no
  string form.
\<close>

record card_element =
  key :: "string option"
  crime_prop :: jsval

definition card_key :: "jsval \<Rightarrow> jserr + string option" where
  "card_key v =
     (if v = JUndefined then Inr None
      else (case to_string v of Inl e \<Rightarrow> Inl e | Inr s \<Rightarrow> Inr (Some s)))"

text \<open>
  The callback of \<open>crimes.map\<close>, applied from left to right; reading \<open>OBJECTID\<close> from a
  \<open>null\<close> element throws, as does a key without a string form, and that ends the whole
  call.
\<close>

fun map_cards :: "jsval list \<Rightarrow> jserr + card_element list" where
  "map_cards [] = Inr []"
| "map_cards (crime # rest) =
     (case get_prop ''OBJECTID'' crime of
        Inl e \<Rightarrow> Inl e
      | Inr oid \<Rightarrow>
         (case card_key oid of
            Inl e \<Rightarrow> Inl e
          | Inr k \<Rightarrow>
             (case map_cards rest of
                Inl e \<Rightarrow> Inl e
              | Inr els \<Rightarrow> Inr (\<lparr> key = k, crime_prop = crime \<rparr> # els))))"

text \<open>\<open>crimes.map(...)\<close>: only an array has a \<open>map\<close> that can be called.\<close>

fun crimes_map :: "jsval \<Rightarrow> jserr + card_element list" where
  "crimes_map (JArr xs) = map_cards xs"
| "crimes_map v = Inl TypeError"

text \<open>What stands inside \<open><main className="crime-feed">\<close>: a paragraph or the cards.\<close>

datatype feed = P string | Cards "card_element list"

definition crime_feed :: "bool \<Rightarrow> jsval \<Rightarrow> jserr + feed" where
  "crime_feed loading crimes =
     (if loading then Inr (P ''Loading crimes...'')
      else case js_length crimes of
             Inl e \<Rightarrow> Inl e
           | Inr n \<Rightarrow>
               if n = JNum 0 then Inr (P ''No crimes found or API error.'')
               else (case crimes_map crimes of
                       Inl e \<Rightarrow> Inl e
                     | Inr els \<Rightarrow> Inr (Cards els)))"

record page =
  heading :: string
  tagline :: string
  main :: feed

definition page_with :: "feed \<Rightarrow> page" where
  "page_with f = \<lparr> heading = ''Berkeley Crime Feed'',
                   tagline = ''Community-reported safety alerts'',
                   main = f \<rparr>"

text \<open>The value \<open>App\<close> returns when its two state hooks hold \<open>loading\<close> and \<open>crimes\<close>.\<close>

definition App :: "bool \<Rightarrow> jsval \<Rightarrow> jserr + page" where
  "App loading crimes =
     (case crime_feed loading crimes of
        Inl e \<Rightarrow> Inl e
      | Inr f \<Rightarrow> Inr (page_with f))"

subsection \<open>The page with every card rendered\<close>

text \<open>
  What React accepts as a child of an element: text, numbers, and the values it skips
  (\<open>null\<close>, \<open>undefined\<close>, booleans), and arrays of such; a plain object is refused.
\<close>

fun valid_child :: "jsval \<Rightarrow> bool" where
  "valid_child (JObj kvs) = False"
| "valid_child (JArr xs) = (\<forall>x \<in> set xs. valid_child x)"
| "valid_child v = True"

text \<open>The record fields a card hands to React as children, in the order of the markup.\<close>

definition card_children :: "card_view \<Rightarrow> jsval list" where
  "card_children v =
     [incident_type v, block_address v, case_number v,
      (case description_slot v of Paragraph d \<Rightarrow> d | Skipped d \<Rightarrow> d)]"

datatype rendered_feed = Message string | Items "(string option \<times> card_view) list"

text \<open>
  React renders the cards one after the other: it calls \<open>CrimeCard\<close> and then goes
  through what the card returned. The first throw ends the render of the page.
\<close>

fun render_cards :: "host \<Rightarrow> card_element list \<Rightarrow> jserr + (string option \<times> card_view) list" where
  "render_cards h [] = Inr []"
| "render_cards h (el # els) =
     (case CrimeCard h (crime_prop el) of
        Inl e \<Rightarrow> Inl e
      | Inr v \<Rightarrow>
         if \<not> list_all valid_child (card_children v) then Inl InvalidChild
         else (case render_cards h els of
                 Inl e \<Rightarrow> Inl e
               | Inr vs \<Rightarrow> Inr ((key el, v) # vs)))"

fun render_feed :: "host \<Rightarrow> feed \<Rightarrow> jserr + rendered_feed" where
  "render_feed h (P text) = Inr (Message text)"
| "render_feed h (Cards els) =
     (case render_cards h els of Inl e \<Rightarrow> Inl e | Inr vs \<Rightarrow> Inr (Items vs))"

definition render :: "host \<Rightarrow> bool \<Rightarrow> jsval \<Rightarrow> jserr + string \<times> string \<times> rendered_feed" where
  "render h loading crimes =
     (case App loading crimes of
        Inl e \<Rightarrow> Inl e
      | Inr pg \<Rightarrow>
         (case render_feed h (main pg) of
            Inl e \<Rightarrow> Inl e
          | Inr f \<Rightarrow> Inr (heading pg, tagline pg, f)))"

section \<open>The fetch controller\<close>

text \<open>
  What \<open>fetch\<close> resolves to: the status, and what \<open>res.json()\<close> would settle to, the
  decoded body or the decoder's error.
\<close>

record response =
  status :: nat
  body :: "jserr + jsval"

definition ok :: "response \<Rightarrow> bool" where
  "ok res = (200 \<le> status res \<and> status res \<le> 299)"

datatype effect = ConsoleError jserr | SetCrimes jsval | SetLoading bool

text \<open>First \<open>then\<close>: \<open>if (!res.ok) throw new Error(`HTTP ${res.status}`); return res.json()\<close>.\<close>

definition on_response :: "response \<Rightarrow> jserr + jsval" where
  "on_response res =
     (if \<not> ok res then Inl (Error (''HTTP '' @ nat_digits (status res))) else body res)"

text \<open>
  What \<open>throw new Error(v)\<close> throws: the error with message \<open>String(v)\<close>, or the
  \<open>TypeError\<close> of that conversion when \<open>v\<close> has no string form.
\<close>

definition new_Error :: "jsval \<Rightarrow> jserr" where
  "new_Error v =
     (if v = JUndefined then Error []
      else (case to_string v of Inl e \<Rightarrow> e | Inr m \<Rightarrow> Error m))"

text \<open>Second \<open>then\<close>: \<open>if (json.error) throw new Error(json.error); setCrimes(json.data)\<close>.\<close>

definition on_json :: "jsval \<Rightarrow> effect list \<times> (jserr + unit)" where
  "on_json json =
     (case get_prop ''error'' json of
        Inl e \<Rightarrow> ([], Inl e)
      | Inr err \<Rightarrow>
          if truthy err then ([], Inl (new_Error err))
          else (case get_prop ''data'' json of
                  Inl e \<Rightarrow> ([], Inl e)
                | Inr d \<Rightarrow> ([SetCrimes d], Inr ())))"

definition on_catch :: "jserr \<Rightarrow> effect list" where
  "on_catch err = [ConsoleError err, SetCrimes (JArr [])]"

definition on_finally :: "effect list" where
  "on_finally = [SetLoading False]"

text \<open>
  The chain \<open>fetch(...).then(...).then(...).catch(...).finally(...)\<close> run on the outcome
  of the request (\<open>Inl\<close>: the request itself was rejected): the calls it makes, in order.
\<close>

definition fetch_chain :: "jserr + response \<Rightarrow> effect list" where
  "fetch_chain outcome =
     (let r1 = (case outcome of Inl e \<Rightarrow> Inl e | Inr res \<Rightarrow> on_response res);
          (e2, r2) = (case r1 of Inl e \<Rightarrow> ([], Inl e) | Inr json \<Rightarrow> on_json json);
          e3 = (case r2 of Inl err \<Rightarrow> on_catch err | Inr u \<Rightarrow> [])
      in e2 @ e3 @ on_finally)"

section \<open>The mounted component\<close>

text \<open>
  The two state hooks, the dependency list the effect hook stored at the last commit
  (\<open>None\<close> before the first one), the \<open>GET /api/crimes\<close> requests issued and still open,
  and the console.
\<close>

record component =
  crimes :: jsval
  loading :: bool
  deps :: "jsval list option"
  requests :: nat
  pending :: nat
  console :: "jserr list"

text \<open>
  The effect hook's rule: the effect runs after the first commit, and after a later one
  only when the dependency list differs from the stored one.
\<close>

definition deps_changed :: "jsval list option \<Rightarrow> jsval list \<Rightarrow> bool" where
  "deps_changed prev next = (case prev of None \<Rightarrow> True | Some p \<Rightarrow> p \<noteq> next)"

text \<open>\<open>useEffect(() => { fetch('/api/crimes')... }, [])\<close> at a commit.\<close>

definition useEffect :: "component \<Rightarrow> component" where
  "useEffect c =
     (if deps_changed (deps c) []
      then c\<lparr> deps := Some [], requests := requests c + 1, pending := pending c + 1 \<rparr>
      else c\<lparr> deps := Some [] \<rparr>)"

text \<open>
  \<open>useState([])\<close>, \<open>useState(true)\<close>, and the first commit, as a production build
  performs it.
\<close>

definition mount :: component where
  "mount = useEffect \<lparr> crimes = JArr [], loading = True, deps = None,
                       requests = 0, pending = 0, console = [] \<rparr>"

fun apply_effect :: "effect \<Rightarrow> component \<Rightarrow> component" where
  "apply_effect (ConsoleError e) c = c\<lparr> console := console c @ [e] \<rparr>"
| "apply_effect (SetCrimes v) c = c\<lparr> crimes := v \<rparr>"
| "apply_effect (SetLoading b) c = c\<lparr> loading := b \<rparr>"

text \<open>A state setter is followed by a new render and commit; logging is not.\<close>

fun dispatch :: "effect \<Rightarrow> component \<Rightarrow> component" where
  "dispatch (ConsoleError e) c = apply_effect (ConsoleError e) c"
| "dispatch eff c = useEffect (apply_effect eff c)"

text \<open>
  What can happen to the mounted component: it renders again, or its request settles
  with some outcome and the chain runs. Only an open request can settle.
\<close>

datatype event = Rerender | Settle "jserr + response"

fun step :: "event \<Rightarrow> component \<Rightarrow> component" where
  "step Rerender c = useEffect c"
| "step (Settle outcome) c =
     (if pending c = 0 then c
      else fold dispatch (fetch_chain outcome) (c\<lparr> pending := pending c - 1 \<rparr>))"

definition run :: "event list \<Rightarrow> component" where
  "run evs = fold step evs mount"

text \<open>
  The entry point renders \<open><React.StrictMode> ... <App /> ... </React.StrictMode>\<close> into
  a root made by \<open>createRoot\<close>. In a production build \<open>StrictMode\<close> does nothing. In a
  development build React, once the component has mounted, runs the clean-up of every
  effect and then the effect again; this effect returns no clean-up, so its body simply
  runs a second time: a second request with its own chain, on the same state.
\<close>

datatype build = Production | Development

definition strict_rerun :: "component \<Rightarrow> component" where
  "strict_rerun c = c\<lparr> requests := requests c + 1, pending := pending c + 1 \<rparr>"

fun mount_in :: "build \<Rightarrow> component" where
  "mount_in Production = mount"
| "mount_in Development = strict_rerun mount"

definition run_in :: "build \<Rightarrow> event list \<Rightarrow> component" where
  "run_in b evs = fold step evs (mount_in b)"

text \<open>
  The component of a production build once its request has settled with the given
  outcome.
\<close>

definition settled :: "jserr + response \<Rightarrow> component" where
  "settled outcome = step (Settle outcome) mount"

text \<open>The text of a diagnostic, where the program chose it.\<close>

fun message :: "jserr \<Rightarrow> string option" where
  "message (Error m) = Some m"
| "message e = None"

definition mentions :: "string \<Rightarrow> jserr \<Rightarrow> bool" where
  "mentions s e = (case message e of None \<Rightarrow> False | Some m \<Rightarrow> sublist s m)"

text \<open>What the user sees for a component: the page \<open>App\<close> returns, every card rendered.\<close>

definition view :: "host \<Rightarrow> component \<Rightarrow> jserr + string \<times> string \<times> rendered_feed" where
  "view h c = render h (loading c) (crimes c)"

text \<open>
  The outcomes on which the chain reaches its \<open>catch\<close> handler: the request is rejected,
  the status is outside 200..299, the body does not decode, or the second \<open>then\<close> throws
  (the decoded body is \<open>null\<close>, or its \<open>error\<close> property is truthy).
\<close>

fun failure :: "jserr + response \<Rightarrow> bool" where
  "failure (Inl e) = True"
| "failure (Inr res) =
     (if ok res
      then (case body res of
              Inl e \<Rightarrow> True
            | Inr json \<Rightarrow>
                (case get_prop ''error'' json of Inl e \<Rightarrow> True | Inr err \<Rightarrow> truthy err))
      else True)"

fun sets_loading :: "effect \<Rightarrow> bool" where
  "sets_loading (SetLoading b) = True"
| "sets_loading eff = False"



text \<open>
  Two hosts give the same answers to the two questions the card of this record asks:
  the number for its identifier and the text for its timestamp.
\<close>

definition same_answers :: "host \<Rightarrow> host \<Rightarrow> jsval \<Rightarrow> bool" where
  "same_answers h1 h2 crime =
     (case get_prop ''OBJECTID'' crime of
        Inl e \<Rightarrow> True
      | Inr oid \<Rightarrow>
          to_number h1 oid = to_number h2 oid \<and>
          (case get_prop ''Occurred_Datetime'' crime of
             Inl e \<Rightarrow> True
           | Inr dt \<Rightarrow> date_text h1 dt = date_text h2 dt))"

section \<open>Example inputs\<close>

text \<open>
  Two hosts for running the examples, a browser with US English set to UTC and one set
  to Pacific time, as far as the examples ask them: the timestamp of scenario A is the
  one date they print, and no example converts a string to a number.
\<close>

definition test_host :: host where
  "test_host =
     \<lparr> toLocaleString =
         (\<lambda>v. if v = JStr ''2024-01-01T10:00:00Z'' then ''1/1/2024, 10:00:00 AM''
              else ''Invalid Date''),
       StringToNumber = (\<lambda>s. NaN) \<rparr>"

definition pacific_host :: host where
  "pacific_host =
     \<lparr> toLocaleString =
         (\<lambda>v. if v = JStr ''2024-01-01T10:00:00Z'' then ''1/1/2024, 2:00:00 AM''
              else ''Invalid Date''),
       StringToNumber = (\<lambda>s. NaN) \<rparr>"

definition respond :: "nat \<Rightarrow> jsval \<Rightarrow> jserr + response" where
  "respond st json = Inr \<lparr> status = st, body = Inr json \<rparr>"

text \<open>The record of scenario A, and the four scenario responses.\<close>

definition theft :: "(string \<times> jsval) list" where
  "theft =
     [(''OBJECTID'', JNum 1), (''Incident_Type'', JStr ''Theft''),
      (''Occurred_Datetime'', JStr ''2024-01-01T10:00:00Z''),
      (''Block_Address'', JStr ''Block of Shattuck Ave''),
      (''Case_Number'', JStr ''24-0001'')]"

definition scenario_A :: "jserr + response" where
  "scenario_A = respond 200 (JObj [(''data'', JArr [JObj theft])])"

definition scenario_B :: "jserr + response" where
  "scenario_B = respond 200 (JObj [(''data'', JArr [])])"

definition scenario_C :: "jserr + response" where
  "scenario_C = respond 500 (JObj [(''error'', JStr ''db down'')])"

definition scenario_D :: "jserr + response" where
  "scenario_D = Inr \<lparr> status = 200, body = Inl SyntaxError \<rparr>"

text \<open>A 200 response whose \<open>error\<close> field is the empty string, and one with no field at all.\<close>

definition empty_error :: "jserr + response" where
  "empty_error = respond 200 (JObj [(''error'', JStr [])])"

definition no_fields :: "jserr + response" where
  "no_fields = respond 200 (JObj [])"



definition minus_seven :: "(string \<times> jsval) list" where
  "minus_seven = [(''OBJECTID'', JNum (- 7))]"

section \<open>The calls of the chain, case by case\<close>

lemma mount_eq:
  "mount = \<lparr> crimes = JArr [], loading = True, deps = Some [],
             requests = 1, pending = 1, console = [] \<rparr>"
  by (simp add: mount_def useEffect_def deps_changed_def)

lemma fetch_chain_shape:
  "(\<exists>d. fetch_chain outcome = [SetCrimes d, SetLoading False]) \<or>
   (\<exists>e. fetch_chain outcome = [ConsoleError e, SetCrimes (JArr []), SetLoading False])"
  by (auto simp: fetch_chain_def on_response_def on_json_def on_catch_def on_finally_def Let_def
        split: sum.splits prod.splits if_splits)

lemma fetch_chain_rejected:
  "fetch_chain (Inl e) = [ConsoleError e, SetCrimes (JArr []), SetLoading False]"
  by (simp add: fetch_chain_def on_catch_def on_finally_def)

lemma fetch_chain_not_ok:
  "\<not> ok res \<Longrightarrow>
   fetch_chain (Inr res) =
     [ConsoleError (Error (''HTTP '' @ nat_digits (status res))),
      SetCrimes (JArr []), SetLoading False]"
  by (simp add: fetch_chain_def on_response_def on_catch_def on_finally_def)

lemma fetch_chain_undecodable:
  "ok res \<Longrightarrow> body res = Inl e \<Longrightarrow>
   fetch_chain (Inr res) = [ConsoleError e, SetCrimes (JArr []), SetLoading False]"
  by (simp add: fetch_chain_def on_response_def on_catch_def on_finally_def)

lemma fetch_chain_unreadable:
  "ok res \<Longrightarrow> body res = Inr json \<Longrightarrow> get_prop ''error'' json = Inl e \<Longrightarrow>
   fetch_chain (Inr res) = [ConsoleError e, SetCrimes (JArr []), SetLoading False]"
  by (simp add: fetch_chain_def on_response_def on_json_def on_catch_def on_finally_def)

lemma fetch_chain_error_field:
  "ok res \<Longrightarrow> body res = Inr json \<Longrightarrow> get_prop ''error'' json = Inr err \<Longrightarrow> truthy err \<Longrightarrow>
   fetch_chain (Inr res) =
     [ConsoleError (new_Error err), SetCrimes (JArr []), SetLoading False]"
  by (simp add: fetch_chain_def on_response_def on_json_def on_catch_def on_finally_def)

lemma fetch_chain_data:
  "ok res \<Longrightarrow> body res = Inr json \<Longrightarrow> get_prop ''error'' json = Inr err \<Longrightarrow>
   \<not> truthy err \<Longrightarrow> get_prop ''data'' json = Inr d \<Longrightarrow>
   fetch_chain (Inr res) = [SetCrimes d, SetLoading False]"
  by (simp add: fetch_chain_def on_response_def on_json_def on_catch_def on_finally_def)

lemma fetch_chain_failure:
  "failure outcome \<Longrightarrow>
   \<exists>e. fetch_chain outcome = [ConsoleError e, SetCrimes (JArr []), SetLoading False]"
  by (cases outcome)
     (auto simp: fetch_chain_rejected fetch_chain_not_ok fetch_chain_undecodable
         fetch_chain_unreadable fetch_chain_error_field split: if_splits sum.splits)

section \<open>Once mounted, a commit never runs the effect again\<close>

lemma useEffect_idle: "deps c = Some [] \<Longrightarrow> useEffect c = c"
  by (simp add: useEffect_def deps_changed_def)

lemma useEffect_state: "loading (useEffect c) = loading c \<and> crimes (useEffect c) = crimes c"
  by (simp add: useEffect_def)

lemma dispatch_idle: "deps c = Some [] \<Longrightarrow> dispatch eff c = apply_effect eff c"
  by (cases eff) (simp_all add: useEffect_def deps_changed_def)

lemma apply_effect_deps [simp]: "deps (apply_effect eff c) = deps c"
  by (cases eff) simp_all

lemma apply_effect_requests [simp]: "requests (apply_effect eff c) = requests c"
  by (cases eff) simp_all

lemma apply_effect_pending [simp]: "pending (apply_effect eff c) = pending c"
  by (cases eff) simp_all

lemma fold_dispatch_idle:
  "deps c = Some [] \<Longrightarrow> fold dispatch effs c = fold apply_effect effs c"
  by (induction effs arbitrary: c) (simp_all add: dispatch_idle)

lemma fold_apply_effect_keeps:
  "deps (fold apply_effect effs c) = deps c \<and>
   requests (fold apply_effect effs c) = requests c \<and>
   pending (fold apply_effect effs c) = pending c"
  by (induction effs arbitrary: c) simp_all

lemma step_keeps:
  "deps c = Some [] \<Longrightarrow> deps (step ev c) = Some [] \<and> requests (step ev c) = requests c"
  by (cases ev) (simp_all add: useEffect_idle fold_dispatch_idle fold_apply_effect_keeps)

lemma fold_step_keeps:
  "deps c = Some [] \<Longrightarrow>
   deps (fold step evs c) = Some [] \<and> requests (fold step evs c) = requests c"
  by (induction evs arbitrary: c) (simp_all add: step_keeps)

lemma fold_step_rerenders:
  "list_all (\<lambda>ev. ev = Rerender) evs \<Longrightarrow> fold step evs mount = mount"
  by (induction evs) (simp_all add: useEffect_idle mount_eq)

lemma fold_step_quiet:
  "pending c = 0 \<Longrightarrow> deps c = Some [] \<Longrightarrow> fold step evs c = c"
proof (induction evs)
  case Nil
  then show ?case by simp
next
  case (Cons ev evs)
  then have "step ev c = c"
    by (cases ev) (simp_all add: useEffect_idle)
  with Cons show ?case by simp
qed

section \<open>The settled component\<close>

lemma settled_eq:
  "settled outcome =
     fold apply_effect (fetch_chain outcome)
       \<lparr> crimes = JArr [], loading = True, deps = Some [],
          requests = 1, pending = 0, console = [] \<rparr>"
  by (simp add: settled_def mount_eq fold_dispatch_idle)

lemma settled_failure:
  "failure outcome \<Longrightarrow> crimes (settled outcome) = JArr [] \<and> \<not> loading (settled outcome)"
  using fetch_chain_failure [of outcome] by (auto simp: settled_eq)


lemma settled_quiet:
  "pending (settled outcome) = 0 \<and> deps (settled outcome) = Some [] \<and>
   \<not> loading (settled outcome)"
  using fetch_chain_shape [of outcome] by (auto simp: settled_eq)

section \<open>The three display modes\<close>


lemma crime_feed_loading: "crime_feed True cs = Inr (P ''Loading crimes...'')"
  by (simp add: crime_feed_def)

lemma crime_feed_empty: "crime_feed False (JArr []) = Inr (P ''No crimes found or API error.'')"
  by (simp add: crime_feed_def)


lemma App_loading: "App True cs = Inr (page_with (P ''Loading crimes...''))"
  by (simp add: App_def crime_feed_loading)

lemma App_empty: "App False (JArr []) = Inr (page_with (P ''No crimes found or API error.''))"
  by (simp add: App_def crime_feed_empty)

lemma view_loading:
  "loading c \<Longrightarrow>
   view h c = Inr (''Berkeley Crime Feed'', ''Community-reported safety alerts'',
                   Message ''Loading crimes...'')"
  by (simp add: view_def render_def App_loading page_with_def)

lemma render_empty:
  "render h False (JArr []) =
     Inr (''Berkeley Crime Feed'', ''Community-reported safety alerts'',
          Message ''No crimes found or API error.'')"
  by (simp add: render_def App_empty page_with_def)

subsection \<open>The example responses, run\<close>

lemma ok_200: "ok \<lparr> status = 200, body = b \<rparr>"
  by (simp add: ok_def)

lemma not_ok_500: "\<not> ok \<lparr> status = 500, body = b \<rparr>"
  by (simp add: ok_def)

lemma nat_digits_500: "nat_digits 500 = ''500''"
  by (simp add: nat_digits.simps)

lemma fetch_chain_scenario_A: "fetch_chain scenario_A = [SetCrimes (JArr [JObj theft]), SetLoading False]"
  using fetch_chain_data [of "\<lparr> status = 200, body = Inr (JObj [(''data'', JArr [JObj theft])]) \<rparr>"
      "JObj [(''data'', JArr [JObj theft])]" JUndefined "JArr [JObj theft]"]
  by (simp add: scenario_A_def respond_def ok_200 own_def)

lemma fetch_chain_scenario_B: "fetch_chain scenario_B = [SetCrimes (JArr []), SetLoading False]"
  using fetch_chain_data [of "\<lparr> status = 200, body = Inr (JObj [(''data'', JArr [])]) \<rparr>"
      "JObj [(''data'', JArr [])]" JUndefined "JArr []"]
  by (simp add: scenario_B_def respond_def ok_200 own_def)

lemma fetch_chain_scenario_C:
  "fetch_chain scenario_C = [ConsoleError (Error ''HTTP 500''), SetCrimes (JArr []), SetLoading False]"
  using fetch_chain_not_ok [of "\<lparr> status = 500, body = Inr (JObj [(''error'', JStr ''db down'')]) \<rparr>"]
  by (simp add: scenario_C_def respond_def not_ok_500 nat_digits_500)

lemma fetch_chain_empty_error: "fetch_chain empty_error = [SetCrimes JUndefined, SetLoading False]"
  using fetch_chain_data [of "\<lparr> status = 200, body = Inr (JObj [(''error'', JStr [])]) \<rparr>"
      "JObj [(''error'', JStr [])]" "JStr []" JUndefined]
  by (simp add: empty_error_def respond_def ok_200 own_def)

section \<open>Conversions throw nothing but \<open>TypeError\<close>\<close>







section \<open>What a card asks of the host\<close>

lemma CrimeCard_same_answers:
  "same_answers h1 h2 crime \<Longrightarrow> CrimeCard h1 crime = CrimeCard h2 crime"
  by (auto simp: same_answers_def CrimeCard_def split: sum.splits)

lemma map_cards_props: "map_cards xs = Inr els \<Longrightarrow> map crime_prop els = xs"
  by (induction xs arbitrary: els) (auto split: sum.splits)

lemma render_cards_same_answers:
  "list_all (\<lambda>el. same_answers h1 h2 (crime_prop el)) els \<Longrightarrow>
   render_cards h1 els = render_cards h2 els"
proof (induction els)
  case Nil
  then show ?case by simp
next
  case (Cons el els)
  then have "CrimeCard h1 (crime_prop el) = CrimeCard h2 (crime_prop el)"
    and "render_cards h1 els = render_cards h2 els"
    by (simp_all add: CrimeCard_same_answers)
  then show ?case by (simp split: sum.splits)
qed

lemma render_same_answers:
  assumes "\<And>xs. cs = JArr xs \<Longrightarrow> list_all (same_answers h1 h2) xs"
  shows "render h1 l cs = render h2 l cs"
proof (cases "App l cs")
  case (Inl e)
  then show ?thesis by (simp add: render_def)
next
  case (Inr pg)
  show ?thesis
  proof (cases "main pg")
    case (P msg)
    with Inr show ?thesis by (simp add: render_def)
  next
    case (Cards els)
    with Inr obtain xs where xs: "cs = JArr xs" and m: "map_cards xs = Inr els"
      by (cases cs)
         (auto simp: App_def crime_feed_def page_with_def split: sum.splits if_splits)
    from map_cards_props [OF m] have "map crime_prop els = xs" .
    with assms [OF xs] have "list_all (\<lambda>el. same_answers h1 h2 (crime_prop el)) els"
      by (auto simp: list_all_iff)
    from render_cards_same_answers [OF this] Inr Cards show ?thesis
      by (simp add: render_def)
  qed
qed

section \<open>The second run of the effect\<close>

lemma mount_in_deps: "deps (mount_in b) = Some []"
  by (cases b) (simp_all add: mount_eq strict_rerun_def)

lemma mount_in_requests: "requests (mount_in Production) = 1 \<and> requests (mount_in Development) = 2"
  by (simp add: mount_eq strict_rerun_def)

section \<open>The claims\<close>




text \<open>
  C5, as stated, fails for a negative identifier: \<open>%\<close> keeps the sign of its left
  operand, so for \<open>OBJECTID = -7\<close> the card shows \<open>-7\<close> and \<open>-1\<close>, where \<open>-7 mod 100\<close> is
  93 and \<open>(-7 mod 5) + 1\<close> is 4.
\<close>

theorem negative_id_keeps_sign:
  "get_prop ''OBJECTID'' (JObj minus_seven) = Inr (JNum (- 7)) \<and>
   CrimeCard test_host (JObj minus_seven) =
     Inr \<lparr> score = Num (- 7), incident_type = JUndefined, occurred = ''Invalid Date'',
           block_address = JUndefined, case_number = JUndefined,
           description_slot = Skipped JUndefined, discuss = Num (- 1) \<rparr> \<and>
   (- 7 :: int) mod 100 = 93 \<and> (- 7 :: int) mod 5 + 1 = 4"
  by (simp add: minus_seven_def own_def CrimeCard_def date_text_def test_host_def int_rem_def)

text \<open>
  C5, amended. For a record whose \<open>OBJECTID\<close> is the integer \<open>n\<close> and whose timestamp
  \<open>new Date\<close> can convert, the card is produced and shows \<open>n % 100\<close> as the upvote counter
  and \<open>(n % 5) + 1\<close> as the comment counter, \<open>%\<close> being the remainder whose sign follows
  \<open>n\<close>. For \<open>n\<close> from 0 on these are \<open>n mod 100\<close> and \<open>(n mod 5) + 1\<close>, for \<open>n = 1\<close> they are
  1 and 2; for negative \<open>n\<close> they are \<open>-(-n mod 100)\<close> and \<open>-(-n mod 5) + 1\<close>. If the
  timestamp cannot be converted, the card throws instead.
\<close>

theorem CrimeCard_placeholder_metrics:
  assumes "get_prop ''OBJECTID'' crime = Inr (JNum n)"
    and "get_prop ''Occurred_Datetime'' crime = Inr dt"
  shows "(to_primitive dt = Inr p \<longrightarrow>
     (\<exists>v. CrimeCard h crime = Inr v \<and>
       score v = int_rem n 100 \<and> discuss v = js_add (int_rem n 5) 1 \<and>
       (0 \<le> n \<longrightarrow> score v = Num (n mod 100) \<and> discuss v = Num (n mod 5 + 1)) \<and>
       (n < 0 \<longrightarrow> score v = Num (- (- n mod 100)) \<and> discuss v = Num (- (- n mod 5) + 1)) \<and>
       (n = 1 \<longrightarrow> score v = Num 1 \<and> discuss v = Num 2))) \<and>
    (to_primitive dt = Inl e \<longrightarrow> CrimeCard h crime = Inl e)"
proof -
  from assms obtain kvs where c: "crime = JObj kvs"
    by (cases crime) auto
  have "0 \<le> n \<Longrightarrow> sgn n * (\<bar>n\<bar> mod 100) = n mod 100"
    by (cases "n = 0") (simp_all add: sgn_if)
  moreover have "0 \<le> n \<Longrightarrow> sgn n * (\<bar>n\<bar> mod 5) = n mod 5"
    by (cases "n = 0") (simp_all add: sgn_if)
  ultimately show ?thesis using assms
    by (simp add: c CrimeCard_def date_text_def int_rem_def sgn_if)
qed

theorem CrimeCard_placeholder_metrics_witness:
  "get_prop ''OBJECTID'' (JObj theft) = Inr (JNum 1) \<and>
   get_prop ''Occurred_Datetime'' (JObj theft) = Inr (JStr ''2024-01-01T10:00:00Z'') \<and>
   to_primitive (JStr ''2024-01-01T10:00:00Z'') = Inr (JStr ''2024-01-01T10:00:00Z'') \<and>
   (\<exists>v. CrimeCard test_host (JObj theft) = Inr v \<and> score v = Num 1 \<and> discuss v = Num 2)"
proof -
  have h1: "get_prop ''OBJECTID'' (JObj theft) = Inr (JNum 1)"
    by (simp add: own_def theft_def)
  have h2: "get_prop ''Occurred_Datetime'' (JObj theft) = Inr (JStr ''2024-01-01T10:00:00Z'')"
    by (simp add: own_def theft_def)
  have h3: "to_primitive (JStr ''2024-01-01T10:00:00Z'') = Inr (JStr ''2024-01-01T10:00:00Z'')"
    by simp
  show ?thesis
    using h1 h2 h3
      CrimeCard_placeholder_metrics [OF h1 h2, of "JStr ''2024-01-01T10:00:00Z''" test_host]
    by auto
qed




text \<open>
  C2, as stated, fails on a 200 response whose body is \<open>{"error": ""}\<close>: the payload has
  an error field, but the empty string is falsy, so the chain takes the success branch
  and stores the missing \<open>data\<close> field. The final \<open>crimes\<close> is \<open>undefined\<close>, not the empty
  array, and rendering it throws instead of showing the empty-state paragraph.
\<close>

theorem empty_error_field_not_a_failure:
  "body \<lparr> status = 200, body = Inr (JObj [(''error'', JStr [])]) \<rparr> =
     Inr (JObj [(''error'', JStr [])]) \<and>
   get_prop ''error'' (JObj [(''error'', JStr [])]) = Inr (JStr []) \<and>
   empty_error = Inr \<lparr> status = 200, body = Inr (JObj [(''error'', JStr [])]) \<rparr> \<and>
   crimes (settled empty_error) = JUndefined \<and>
   crimes (settled empty_error) \<noteq> JArr [] \<and>
   App (loading (settled empty_error)) (crimes (settled empty_error)) = Inl TypeError \<and>
   App (loading (settled scenario_B)) (crimes (settled scenario_B)) =
     Inr (page_with (P ''No crimes found or API error.''))"
proof -
  have i: "empty_error = Inr \<lparr> status = 200, body = Inr (JObj [(''error'', JStr [])]) \<rparr>"
    by (simp add: empty_error_def respond_def)
  have g: "get_prop ''error'' (JObj [(''error'', JStr [])]) = Inr (JStr [])"
    by (simp add: own_def)
  have c: "crimes (settled empty_error) = JUndefined \<and> \<not> loading (settled empty_error)"
    by (simp add: settled_eq fetch_chain_empty_error)
  have b: "crimes (settled scenario_B) = JArr [] \<and> \<not> loading (settled scenario_B)"
    by (simp add: settled_eq fetch_chain_scenario_B)
  have a: "App False JUndefined = Inl TypeError"
    by (simp add: App_def crime_feed_def)
  show ?thesis using i g c b a by (simp add: App_empty)
qed

text \<open>
  C2, amended. On every outcome that reaches the \<open>catch\<close> handler (the request is
  rejected, the status is not 2xx, the body does not decode, the decoded body is \<open>null\<close>,
  or its \<open>error\<close> field is truthy) the controller ends with \<open>crimes\<close> the empty array and
  \<open>loading\<close> cleared, and what is displayed is what is displayed after a successful
  response with no record: the empty-state paragraph.
\<close>

theorem failure_collapses:
  assumes "failure outcome"
  shows "crimes (settled outcome) = JArr [] \<and> \<not> loading (settled outcome) \<and>
    view h (settled outcome) = view h (settled scenario_B) \<and>
    view h (settled outcome) =
      Inr (''Berkeley Crime Feed'', ''Community-reported safety alerts'',
           Message ''No crimes found or API error.'')"
proof -
  have e: "crimes (settled scenario_B) = JArr [] \<and> \<not> loading (settled scenario_B)"
    by (simp add: settled_eq fetch_chain_scenario_B)
  have f: "crimes (settled outcome) = JArr [] \<and> \<not> loading (settled outcome)"
    using settled_failure [OF assms] .
  show ?thesis using e f by (simp add: view_def render_empty)
qed

theorem failure_collapses_witness:
  "failure scenario_C \<and> failure scenario_D \<and> failure (Inl TypeError) \<and>
   failure (respond 200 (JObj [(''error'', JStr ''db down'')])) \<and>
   crimes (settled scenario_D) = JArr [] \<and> \<not> loading (settled scenario_D) \<and>
   view test_host (settled scenario_D) = view test_host (settled scenario_B) \<and>
   crimes (settled scenario_C) = JArr [] \<and>
   crimes (settled (Inl TypeError)) = JArr [] \<and>
   crimes (settled (respond 200 (JObj [(''error'', JStr ''db down'')]))) = JArr []"
proof -
  have c: "failure scenario_C"
    by (simp add: scenario_C_def respond_def not_ok_500)
  have d: "failure scenario_D"
    by (simp add: scenario_D_def ok_200)
  have n: "failure (Inl TypeError)"
    by simp
  have a: "failure (respond 200 (JObj [(''error'', JStr ''db down'')]))"
    by (simp add: respond_def ok_200 own_def)
  show ?thesis
    using c d n a failure_collapses [OF c, of test_host] failure_collapses [OF d, of test_host]
      failure_collapses [OF n, of test_host] failure_collapses [OF a, of test_host]
    by simp
qed

text \<open>
  C3, as stated, fails on scenario C itself: the status is tested before the body is
  read, so for status 500 the one diagnostic logged is \<open>Error("HTTP 500")\<close>, and
  \<open>db down\<close> does not occur in it.
\<close>

theorem scenario_C_logs_status_only:
  "scenario_C = Inr \<lparr> status = 500, body = Inr (JObj [(''error'', JStr ''db down'')]) \<rparr> \<and>
   console (settled scenario_C) = [Error ''HTTP 500''] \<and>
   \<not> list_ex (mentions ''db down'') (console (settled scenario_C))"
proof -
  have i: "scenario_C = Inr \<lparr> status = 500, body = Inr (JObj [(''error'', JStr ''db down'')]) \<rparr>"
    by (simp add: scenario_C_def respond_def)
  have c: "console (settled scenario_C) = [Error ''HTTP 500'']"
    by (simp add: settled_eq fetch_chain_scenario_C)
  have m: "\<not> mentions ''db down'' (Error ''HTTP 500'')"
    by (simp add: mentions_def sublist_Cons_right)
  show ?thesis using i c m by simp
qed

text \<open>
  C3, amended. A response whose status is not 2xx is a failure of the transport
  whatever its body holds: the empty-state paragraph is shown and the diagnostic logged
  is \<open>Error("HTTP " + status)\<close>, for status 500 \<open>Error("HTTP 500")\<close>. The \<open>error\<close> field
  decides for a 2xx response only: there a non-empty error string gives the empty-state
  paragraph and a diagnostic whose message is that string.
\<close>

theorem status_checked_before_body:
  "(\<not> ok res \<longrightarrow>
      console (settled (Inr res)) = [Error (''HTTP '' @ nat_digits (status res))] \<and>
      App (loading (settled (Inr res))) (crimes (settled (Inr res))) =
        Inr (page_with (P ''No crimes found or API error.''))) \<and>
   (status res = 500 \<longrightarrow> console (settled (Inr res)) = [Error ''HTTP 500'']) \<and>
   (ok res \<and> body res = Inr json \<and> get_prop ''error'' json = Inr (JStr s) \<and> s \<noteq> [] \<longrightarrow>
      console (settled (Inr res)) = [Error s] \<and>
      list_ex (mentions s) (console (settled (Inr res))) \<and>
      App (loading (settled (Inr res))) (crimes (settled (Inr res))) =
        Inr (page_with (P ''No crimes found or API error.'')))"
proof -
  have a: "\<not> ok res \<Longrightarrow>
      console (settled (Inr res)) = [Error (''HTTP '' @ nat_digits (status res))] \<and>
      crimes (settled (Inr res)) = JArr [] \<and> \<not> loading (settled (Inr res))"
    by (simp add: settled_eq fetch_chain_not_ok)
  have b: "status res = 500 \<Longrightarrow> \<not> ok res"
    by (simp add: ok_def)
  have c: "ok res \<and> body res = Inr json \<and> get_prop ''error'' json = Inr (JStr s) \<and> s \<noteq> [] \<Longrightarrow>
      console (settled (Inr res)) = [Error s] \<and>
      crimes (settled (Inr res)) = JArr [] \<and> \<not> loading (settled (Inr res))"
    using fetch_chain_error_field [of res json "JStr s"]
    by (simp add: settled_eq new_Error_def)
  show ?thesis using a b c nat_digits_500 App_empty
    by (auto simp: mentions_def)
qed

theorem status_checked_before_body_witness:
  "\<not> ok \<lparr> status = 500, body = Inr (JObj [(''error'', JStr ''db down'')]) \<rparr> \<and>
   console (settled (respond 500 (JObj [(''error'', JStr ''db down'')]))) = [Error ''HTTP 500''] \<and>
   App (loading (settled (respond 500 (JObj [(''error'', JStr ''db down'')]))))
       (crimes (settled (respond 500 (JObj [(''error'', JStr ''db down'')])))) =
     Inr (page_with (P ''No crimes found or API error.'')) \<and>
   ok \<lparr> status = 200, body = Inr (JObj [(''error'', JStr ''db down'')]) \<rparr> \<and>
   get_prop ''error'' (JObj [(''error'', JStr ''db down'')]) = Inr (JStr ''db down'') \<and>
   console (settled (respond 200 (JObj [(''error'', JStr ''db down'')]))) = [Error ''db down''] \<and>
   list_ex (mentions ''db down'')
     (console (settled (respond 200 (JObj [(''error'', JStr ''db down'')]))))"
proof -
  let ?json = "JObj [(''error'', JStr ''db down'')]"
  have n: "\<not> ok \<lparr> status = 500, body = Inr ?json \<rparr>"
    by (rule not_ok_500)
  have y: "ok \<lparr> status = 200, body = Inr ?json \<rparr>"
    by (rule ok_200)
  have g: "get_prop ''error'' ?json = Inr (JStr ''db down'')"
    by (simp add: own_def)
  have b: "body \<lparr> status = 200, body = Inr ?json \<rparr> = Inr ?json"
    by simp
  have s: "status \<lparr> status = 500, body = Inr ?json \<rparr> = 500"
    by simp
  have t: "''db down'' \<noteq> []"
    by simp
  note five = status_checked_before_body [of "\<lparr> status = 500, body = Inr ?json \<rparr>"]
  note two = status_checked_before_body
      [of "\<lparr> status = 200, body = Inr ?json \<rparr>" ?json "''db down''"]
  have f1: "console (settled (Inr \<lparr> status = 500, body = Inr ?json \<rparr>)) = [Error ''HTTP 500'']"
    using five s by blast
  have f2: "App (loading (settled (Inr \<lparr> status = 500, body = Inr ?json \<rparr>)))
       (crimes (settled (Inr \<lparr> status = 500, body = Inr ?json \<rparr>))) =
     Inr (page_with (P ''No crimes found or API error.''))"
    using five n by blast
  have f3: "console (settled (Inr \<lparr> status = 200, body = Inr ?json \<rparr>)) = [Error ''db down''] \<and>
      list_ex (mentions ''db down'') (console (settled (Inr \<lparr> status = 200, body = Inr ?json \<rparr>)))"
    using two y b g t by blast
  show ?thesis
    unfolding respond_def using n y g f1 f2 f3 by blast
qed

text \<open>
  C4. \<open>loading\<close> is set when the component has mounted and stays set through any number
  of re-renders; once the request has settled, with whatever outcome, it is cleared and
  stays cleared whatever happens next. The chain calls \<open>setLoading\<close> exactly once, with
  \<open>false\<close>, and that call is its last.
\<close>

theorem loading_lifecycle:
  "loading mount \<and>
   (list_all (\<lambda>ev. ev = Rerender) evs \<longrightarrow> loading (run evs)) \<and>
   (list_all (\<lambda>ev. ev = Rerender) evs \<longrightarrow> \<not> loading (run (evs @ Settle outcome # evs'))) \<and>
   filter sets_loading (fetch_chain outcome) = [SetLoading False] \<and>
   last (fetch_chain outcome) = SetLoading False"
proof -
  have after: "list_all (\<lambda>ev. ev = Rerender) evs \<Longrightarrow>
      run (evs @ Settle outcome # evs') = settled outcome"
    using settled_quiet [of outcome]
    by (simp add: run_def fold_step_rerenders fold_step_quiet settled_def)
  have shape: "filter sets_loading (fetch_chain outcome) = [SetLoading False] \<and>
      last (fetch_chain outcome) = SetLoading False"
    using fetch_chain_shape [of outcome] by auto
  have idle: "list_all (\<lambda>ev. ev = Rerender) evs \<Longrightarrow> run evs = mount"
    by (simp add: run_def fold_step_rerenders)
  have m: "loading mount"
    by (simp add: mount_eq)
  show ?thesis using idle after settled_quiet [of outcome] shape m
    by simp
qed

theorem loading_lifecycle_witness:
  "list_all (\<lambda>ev. ev = Rerender) [Rerender, Rerender] \<and>
   loading (run [Rerender, Rerender]) \<and>
   \<not> loading (run ([Rerender, Rerender] @ Settle scenario_D # [Rerender])) \<and>
   filter sets_loading (fetch_chain scenario_D) = [SetLoading False]"
  using loading_lifecycle [of "[Rerender, Rerender]" scenario_D "[Rerender]"]
  by simp

text \<open>
  C6. While \<open>loading\<close> is set, the component after any proper part of the chain's calls
  still has \<open>loading\<close> set, and a render at that point returns the loading paragraph,
  the same display as before the request settled; only after the last call is \<open>loading\<close>
  cleared. So even a render placed between \<open>setCrimes\<close> and \<open>setLoading\<close> shows no
  record.
\<close>

theorem settlement_observably_atomic:
  assumes "loading c" and "k < length (fetch_chain outcome)"
  shows "loading (fold dispatch (take k (fetch_chain outcome)) c) \<and>
    App (loading (fold dispatch (take k (fetch_chain outcome)) c))
        (crimes (fold dispatch (take k (fetch_chain outcome)) c)) =
      Inr (page_with (P ''Loading crimes...'')) \<and>
    view h (fold dispatch (take k (fetch_chain outcome)) c) = view h c \<and>
    \<not> loading (fold dispatch (fetch_chain outcome) c)"
proof -
  let ?ck = "fold dispatch (take k (fetch_chain outcome)) c"
  have k: "k = 0 \<or> k = 1 \<or> k = 2"
    using assms(2) fetch_chain_shape [of outcome] by auto
  have l: "loading ?ck \<and> \<not> loading (fold dispatch (fetch_chain outcome) c)"
    using assms k fetch_chain_shape [of outcome] by (auto simp: useEffect_state)
  have "view h ?ck = view h c"
    using l assms(1) by (simp add: view_loading)
  then show ?thesis using l by (simp add: App_loading)
qed

theorem settlement_observably_atomic_witness:
  "loading mount \<and> 1 < length (fetch_chain scenario_A) \<and>
   crimes (fold dispatch (take 1 (fetch_chain scenario_A)) mount) = JArr [JObj theft] \<and>
   loading (fold dispatch (take 1 (fetch_chain scenario_A)) mount) \<and>
   App (loading (fold dispatch (take 1 (fetch_chain scenario_A)) mount))
       (crimes (fold dispatch (take 1 (fetch_chain scenario_A)) mount)) =
     Inr (page_with (P ''Loading crimes...'')) \<and>
   \<not> loading (fold dispatch (fetch_chain scenario_A) mount)"
proof -
  have h1: "loading mount"
    by (simp add: mount_eq)
  have h2: "1 < length (fetch_chain scenario_A)"
    by (simp add: fetch_chain_scenario_A)
  have c: "crimes (fold dispatch (take 1 (fetch_chain scenario_A)) mount) = JArr [JObj theft]"
    by (simp add: fetch_chain_scenario_A useEffect_state)
  show ?thesis
    using h1 h2 c settlement_observably_atomic [OF h1 h2, of test_host]
    by (simp add: App_loading)
qed

text \<open>
  C7, as stated, fails in a development build: the entry point mounts \<open>App\<close> inside
  \<open>React.StrictMode\<close>, and the effect has no clean-up, so React runs its body twice at
  the mount and two \<open>GET /api/crimes\<close> requests are issued before any re-render.
\<close>

theorem strict_mode_fetches_twice:
  "requests (mount_in Development) = 2 \<and>
   requests (run_in Development []) = 2 \<and>
   \<not> requests (run_in Development []) \<le> 1"
  by (simp add: run_in_def mount_eq strict_rerun_def)

text \<open>
  C7, amended. In a production build exactly one \<open>GET /api/crimes\<close> is issued in the
  life of the component, at the mount; in a development build, under the entry point's
  \<open>StrictMode\<close>, exactly two, both at the mount. In either build nothing that happens
  afterwards (re-renders, the settling of the requests, in any number and order) issues
  another, and a re-render issues none.
\<close>

theorem fetch_issued_once:
  "requests (run_in Production evs) = 1 \<and>
   requests (run_in Development evs) = 2 \<and>
   requests (run_in b evs) = requests (mount_in b) \<and>
   requests (step Rerender (run_in b evs)) = requests (run_in b evs) \<and>
   run_in Production evs = run evs"
proof -
  have k: "deps (run_in b evs) = Some [] \<and> requests (run_in b evs) = requests (mount_in b)" for b
  proof -
    have "deps (mount_in b) = Some []"
      by (rule mount_in_deps)
    from fold_step_keeps [OF this] show ?thesis
      by (simp add: run_in_def)
  qed
  have r: "requests (step Rerender (run_in b evs)) = requests (run_in b evs)"
    using k [of b] step_keeps [of "run_in b evs" Rerender] by simp
  have p: "run_in Production evs = run evs"
    by (simp add: run_in_def run_def)
  show ?thesis using k [of Production] k [of Development] k [of b] r p mount_in_requests
    by simp
qed

theorem fetch_issued_once_witness:
  "requests (run_in Production [Rerender, Settle scenario_A, Rerender, Settle scenario_C]) = 1 \<and>
   requests (run_in Development [Rerender, Settle scenario_A, Rerender, Settle scenario_C]) = 2"
  using fetch_issued_once [of "[Rerender, Settle scenario_A, Rerender, Settle scenario_C]" Production]
  by blast

text \<open>
  C9, as stated, fails: the card prints the timestamp with \<open>toLocaleString()\<close>, which
  reads the locale and time zone of the browser, not the controller state. The settled
  state of scenario A displays \<open>1/1/2024, 10:00:00 AM\<close> on a host set to UTC and
  \<open>1/1/2024, 2:00:00 AM\<close> on one set to Pacific time.
\<close>

theorem display_depends_on_host:
  "view test_host (settled scenario_A) =
     Inr (''Berkeley Crime Feed'', ''Community-reported safety alerts'',
          Items [(Some ''1'',
                  \<lparr> score = Num 1, incident_type = JStr ''Theft'',
                    occurred = ''1/1/2024, 10:00:00 AM'',
                    block_address = JStr ''Block of Shattuck Ave'',
                    case_number = JStr ''24-0001'',
                    description_slot = Skipped JUndefined, discuss = Num 2 \<rparr>)]) \<and>
   view pacific_host (settled scenario_A) =
     Inr (''Berkeley Crime Feed'', ''Community-reported safety alerts'',
          Items [(Some ''1'',
                  \<lparr> score = Num 1, incident_type = JStr ''Theft'',
                    occurred = ''1/1/2024, 2:00:00 AM'',
                    block_address = JStr ''Block of Shattuck Ave'',
                    case_number = JStr ''24-0001'',
                    description_slot = Skipped JUndefined, discuss = Num 2 \<rparr>)]) \<and>
   view test_host (settled scenario_A) \<noteq> view pacific_host (settled scenario_A)"
proof -
  have s: "crimes (settled scenario_A) = JArr [JObj theft] \<and> \<not> loading (settled scenario_A)"
    by (simp add: settled_eq fetch_chain_scenario_A)
  have d: "int_digits 1 = ''1''"
    by (simp add: int_digits_def nat_digits.simps)
  have a: "App False (JArr [JObj theft]) =
      Inr (page_with (Cards [\<lparr> key = Some ''1'', crime_prop = JObj theft \<rparr>]))"
    by (simp add: App_def crime_feed_def card_key_def own_def theft_def d)
  have t: "CrimeCard test_host (JObj theft) =
      Inr \<lparr> score = Num 1, incident_type = JStr ''Theft'',
            occurred = ''1/1/2024, 10:00:00 AM'',
            block_address = JStr ''Block of Shattuck Ave'',
            case_number = JStr ''24-0001'',
            description_slot = Skipped JUndefined, discuss = Num 2 \<rparr>"
    by (simp add: CrimeCard_def date_text_def own_def theft_def test_host_def int_rem_def)
  have p: "CrimeCard pacific_host (JObj theft) =
      Inr \<lparr> score = Num 1, incident_type = JStr ''Theft'',
            occurred = ''1/1/2024, 2:00:00 AM'',
            block_address = JStr ''Block of Shattuck Ave'',
            case_number = JStr ''24-0001'',
            description_slot = Skipped JUndefined, discuss = Num 2 \<rparr>"
    by (simp add: CrimeCard_def date_text_def own_def theft_def pacific_host_def int_rem_def)
  have vt: "view test_host (settled scenario_A) =
     Inr (''Berkeley Crime Feed'', ''Community-reported safety alerts'',
          Items [(Some ''1'',
                  \<lparr> score = Num 1, incident_type = JStr ''Theft'',
                    occurred = ''1/1/2024, 10:00:00 AM'',
                    block_address = JStr ''Block of Shattuck Ave'',
                    case_number = JStr ''24-0001'',
                    description_slot = Skipped JUndefined, discuss = Num 2 \<rparr>)])"
    by (simp add: view_def render_def s a t page_with_def card_children_def)
  have vp: "view pacific_host (settled scenario_A) =
     Inr (''Berkeley Crime Feed'', ''Community-reported safety alerts'',
          Items [(Some ''1'',
                  \<lparr> score = Num 1, incident_type = JStr ''Theft'',
                    occurred = ''1/1/2024, 2:00:00 AM'',
                    block_address = JStr ''Block of Shattuck Ave'',
                    case_number = JStr ''24-0001'',
                    description_slot = Skipped JUndefined, discuss = Num 2 \<rparr>)])"
    by (simp add: view_def render_def s a p page_with_def card_children_def)
  show ?thesis unfolding vt vp by simp
qed

text \<open>
  C9, amended. What is displayed is determined by \<open>loading\<close>, \<open>crimes\<close> and the answers of
  the host. On one host, two components that agree on \<open>loading\<close> and \<open>crimes\<close> display the
  same, and rendering again leaves the display as it is. Across hosts, the display is
  the same while \<open>loading\<close> is set, and otherwise whenever the two hosts give, for every
  record of \<open>crimes\<close>, the same number for its identifier and the same text for its
  timestamp; nothing else of the host is read.
\<close>

theorem render_pure:
  "(loading c1 = loading c2 \<and> crimes c1 = crimes c2 \<longrightarrow> view h c1 = view h c2) \<and>
   view h (step Rerender c) = view h c \<and>
   (loading c \<longrightarrow> view h1 c = view h2 c) \<and>
   ((\<forall>xs. crimes c = JArr xs \<longrightarrow> list_all (same_answers h1 h2) xs) \<longrightarrow>
      view h1 c = view h2 c)"
proof -
  have same: "loading c1 = loading c2 \<and> crimes c1 = crimes c2 \<longrightarrow> view h c1 = view h c2"
    by (simp add: view_def)
  have again: "view h (step Rerender c) = view h c"
    using useEffect_state [of c] by (simp add: view_def)
  have busy: "loading c \<longrightarrow> view h1 c = view h2 c"
    by (simp add: view_loading)
  have hosts: "(\<forall>xs. crimes c = JArr xs \<longrightarrow> list_all (same_answers h1 h2) xs) \<longrightarrow>
      view h1 c = view h2 c"
    using render_same_answers [of "crimes c" h1 h2 "loading c"] by (simp add: view_def)
  show ?thesis using same again busy hosts by blast
qed

theorem render_pure_witness:
  "crimes (settled scenario_A) = JArr [JObj theft] \<and>
   list_all (same_answers test_host (test_host\<lparr> StringToNumber := (\<lambda>s. Num 0) \<rparr>)) [JObj theft] \<and>
   view test_host (settled scenario_A) =
     view (test_host\<lparr> StringToNumber := (\<lambda>s. Num 0) \<rparr>) (settled scenario_A) \<and>
   view test_host (step Rerender (settled scenario_A)) = view test_host (settled scenario_A) \<and>
   loading mount \<and> view test_host mount = view pacific_host mount"
proof -
  let ?h = "test_host\<lparr> StringToNumber := (\<lambda>s. Num 0) \<rparr>"
  have s: "crimes (settled scenario_A) = JArr [JObj theft]"
    by (simp add: settled_eq fetch_chain_scenario_A)
  have a: "list_all (same_answers test_host ?h) [JObj theft]"
    by (simp add: same_answers_def own_def theft_def date_text_def test_host_def)
  have m: "loading mount"
    by (simp add: mount_eq)
  have v: "view test_host (settled scenario_A) = view ?h (settled scenario_A)"
    using render_pure [of _ _ _ "settled scenario_A" test_host ?h] s a by simp
  have r: "view test_host (step Rerender (settled scenario_A)) = view test_host (settled scenario_A)"
    using render_pure [of _ _ test_host "settled scenario_A"] by blast
  have l: "view test_host mount = view pacific_host mount"
    using render_pure [of _ _ _ mount test_host pacific_host] m by blast
  show ?thesis using s a v r m l by simp
qed

text \<open>
  C10. For a 2xx response whose decoded body is an object with neither an \<open>error\<close> nor a
  \<open>data\<close> property, the chain calls \<open>setCrimes(undefined)\<close> and then clears \<open>loading\<close>; the
  next render reads \<open>crimes.length\<close> of \<open>undefined\<close> and throws a \<open>TypeError\<close>. The success
  path does not make \<open>crimes\<close> a sequence.
\<close>

theorem missing_data_unvalidated:
  assumes "ok res" and "body res = Inr (JObj kvs)"
    and "map_of kvs ''error'' = None" and "map_of kvs ''data'' = None"
  shows "fetch_chain (Inr res) = [SetCrimes JUndefined, SetLoading False] \<and>
    crimes (settled (Inr res)) = JUndefined \<and> \<not> loading (settled (Inr res)) \<and>
    js_length (crimes (settled (Inr res))) = Inl TypeError \<and>
    App (loading (settled (Inr res))) (crimes (settled (Inr res))) = Inl TypeError"
proof -
  have "fetch_chain (Inr res) = [SetCrimes JUndefined, SetLoading False]"
    using assms fetch_chain_data [of res "JObj kvs" JUndefined JUndefined]
    by (simp add: own_def)
  then show ?thesis
    by (simp add: settled_eq App_def crime_feed_def)
qed

theorem missing_data_unvalidated_witness:
  "ok \<lparr> status = 200, body = Inr (JObj []) \<rparr> \<and>
   crimes (settled no_fields) = JUndefined \<and> \<not> loading (settled no_fields) \<and>
   App (loading (settled no_fields)) (crimes (settled no_fields)) = Inl TypeError"
proof -
  have h1: "ok \<lparr> status = 200, body = Inr (JObj []) \<rparr>"
    by (rule ok_200)
  have h2: "body \<lparr> status = 200, body = Inr (JObj []) \<rparr> = Inr (JObj [])"
    by simp
  have h3: "map_of ([] :: (string \<times> jsval) list) ''error'' = None"
    by simp
  have h4: "map_of ([] :: (string \<times> jsval) list) ''data'' = None"
    by simp
  show ?thesis
    unfolding no_fields_def respond_def
    using h1 missing_data_unvalidated [OF h1 h2 h3 h4] by blast
qed

end
